theory Spec2Isabelle
  imports Main "HOL-Library.Sublist"
begin

section \<open>Text primitives of the Python runtime\<close>

text \<open>
  A Python \<open>str\<close> is modelled as a \<open>string\<close>; a \<open>char\<close> stands for the code point
  \<open>of_char c\<close>, so the model covers text over the first 256 code points. The content of a
  text file is the \<open>str\<close> that \<open>f.read()\<close> returns (decoded, line ends already
  translated to the newline character by the text mode of \<open>open\<close>).
\<close>

definition newline :: char where
  "newline = CHR 0x0A"

definition colon :: char where
  "colon = CHR 0x3A"

definition dquote :: char where
  "dquote = CHR 0x22"

text \<open>
  \<open>str.isspace\<close> on one character, which is also what \<open>str.strip()\<close> removes and what
  the class \<open>\s\<close> of a \<open>str\<close> pattern matches: TAB, LF, VT, FF, CR, the separators
  0x1C to 0x1F, the space, NEL (0x85) and the no-break space (0xA0).
\<close>

definition isspace :: "char \<Rightarrow> bool" where
  "isspace c =
     (let n = (of_char c :: nat)
      in (9 \<le> n \<and> n \<le> 13) \<or> (28 \<le> n \<and> n \<le> 32) \<or> n = 133 \<or> n = 160)"

text \<open>\<open>s.strip()\<close>: the whitespace at both ends is removed.\<close>

definition strip :: "string \<Rightarrow> string" where
  "strip s = rev (dropWhile isspace (rev (dropWhile isspace s)))"

text \<open>
  \<open>for line in f\<close>: the lines of the text, each with its terminating newline (the
  last line has none when the text does not end in a newline; the empty text has no line).
\<close>

fun readlines :: "string \<Rightarrow> string list" where
  "readlines [] = []"
| "readlines (c # cs) =
     (if c = newline then [c] # readlines cs
      else (case readlines cs of [] \<Rightarrow> [[c]] | l # ls \<Rightarrow> (c # l) # ls))"

text \<open>
  \<open>s.split('\n')\<close>: the pieces between newlines, without them; never the empty list
  (the second branch of the \<open>case\<close> is the only one that is reached).
\<close>

fun split_newline :: "string \<Rightarrow> string list" where
  "split_newline [] = [[]]"
| "split_newline (c # cs) =
     (if c = newline then [] # split_newline cs
      else (case split_newline cs of [] \<Rightarrow> [[c]] | l # ls \<Rightarrow> (c # l) # ls))"

text \<open>
  \<open>line.split(':', 1)\<close> on a line that contains a colon: the text before the first
  colon and the text after it.
\<close>

definition split_colon :: "string \<Rightarrow> string \<times> string" where
  "split_colon line =
     (takeWhile (\<lambda>c. c \<noteq> colon) line, tl (dropWhile (\<lambda>c. c \<noteq> colon) line))"

text \<open>\<open>sep.join(xs)\<close>.\<close>

fun join :: "string \<Rightarrow> string list \<Rightarrow> string" where
  "join sep [] = []"
| "join sep [x] = x"
| "join sep (x # y # ys) = x @ sep @ join sep (y # ys)"

section \<open>extract_ioc_metadata\<close>

text \<open>
  The body of the loop of \<open>extract_ioc_metadata\<close>: a line with a colon stores its
  stripped key and value in the dictionary, any other line leaves it as it is.
\<close>

definition metadata_line :: "(string \<rightharpoonup> string) \<Rightarrow> string \<Rightarrow> (string \<rightharpoonup> string)" where
  "metadata_line metadata line =
     (if colon \<in> set line
      then (case split_colon line of (key, val) \<Rightarrow> metadata(strip key \<mapsto> strip val))
      else metadata)"

fun metadata_loop :: "(string \<rightharpoonup> string) \<Rightarrow> string list \<Rightarrow> (string \<rightharpoonup> string)" where
  "metadata_loop metadata [] = metadata"
| "metadata_loop metadata (line # ls) = metadata_loop (metadata_line metadata line) ls"

text \<open>
  The log file is \<open>None\<close> when \<open>os.path.exists\<close> is false, and its text otherwise.
\<close>

definition extract_ioc_metadata :: "string option \<Rightarrow> (string \<rightharpoonup> string)" where
  "extract_ioc_metadata start_log =
     (case start_log of
        None \<Rightarrow> Map.empty
      | Some text \<Rightarrow> metadata_loop Map.empty (readlines text))"

text \<open>
  The specification's reading of one line: a line with a colon is the pair of its trimmed
  key (before the first colon) and trimmed value (after it); a line without is dropped.
\<close>

definition line_entry :: "string \<Rightarrow> (string \<times> string) option" where
  "line_entry line =
     (if colon \<in> set line
      then Some (strip (takeWhile (\<lambda>c. c \<noteq> colon) line),
                 strip (tl (dropWhile (\<lambda>c. c \<noteq> colon) line)))
      else None)"

section \<open>make_urls_clickable\<close>

text \<open>
  One attempt of the pattern \<open>(https?://[^\s]+)\<close> at the start of a text, after the
  scheme: the maximal run of non-whitespace characters that follows, which has to be
  non-empty. The result is the matched text and the text after it.
\<close>

definition match_after :: "string \<Rightarrow> string \<Rightarrow> (string \<times> string) option" where
  "match_after scheme s =
     (if take (length scheme) s = scheme
      then (let r = drop (length scheme) s;
                body = takeWhile (\<lambda>c. \<not> isspace c) r
            in if body = [] then None
               else Some (scheme @ body, dropWhile (\<lambda>c. \<not> isspace c) r))
      else None)"

text \<open>
  The greedy \<open>s?\<close> takes the \<open>s\<close> first; without it the pattern goes on with
  \<open>://\<close> directly after \<open>http\<close>.
\<close>

definition url_match :: "string \<Rightarrow> (string \<times> string) option" where
  "url_match s =
     (case match_after ''https://'' s of
        Some m \<Rightarrow> Some m
      | None \<Rightarrow> match_after ''http://'' s)"

text \<open>
  \<open>re.sub(url_pattern, r'[\1](\1)', text)\<close>: the scan goes from left to right; a match
  is replaced and the scan goes on behind it, a character where no match starts is copied.
\<close>

function make_urls_clickable :: "string \<Rightarrow> string" where
  "make_urls_clickable [] = []"
| "make_urls_clickable (c # cs) =
     (case url_match (c # cs) of
        Some (u, rest) \<Rightarrow> ''['' @ u @ '']('' @ u @ '')'' @ make_urls_clickable rest
      | None \<Rightarrow> c # make_urls_clickable cs)"
  by pat_completeness auto
termination
proof (relation "measure length")
  show "wf (measure length)" by simp
next
  fix c :: char and cs :: string and x2 :: "string \<times> string" and x y :: string
  assume "url_match (c # cs) = Some x2" and "(x, y) = x2"
  then have "length y \<le> length (c # cs) - 7"
    by (auto simp: url_match_def match_after_def Let_def length_dropWhile_le
             intro: order_trans [OF length_dropWhile_le]
             split: option.splits if_splits)
  then show "(y, c # cs) \<in> measure length" by simp
next
  fix c :: char and cs :: string
  show "(cs, c # cs) \<in> measure length" by simp
qed

text \<open>
  The specification's URL pattern at the start of a text: \<open>http://\<close> or \<open>https://\<close>
  followed by a non-whitespace character.
\<close>

definition url_start :: "string \<Rightarrow> bool" where
  "url_start s =
     (\<exists>scheme \<in> set [''http://'', ''https://''].
        take (length scheme) s = scheme \<and>
        (case drop (length scheme) s of [] \<Rightarrow> False | c # _ \<Rightarrow> \<not> isspace c))"

section \<open>The process-variable count\<close>

text \<open>
  \<open>len([line for line in pvlist_content.strip().split('\n') if line.strip()])\<close>
\<close>


definition pv_count :: "string \<Rightarrow> nat" where
  "pv_count pvlist_content =
     length (filter (\<lambda>line. strip line \<noteq> []) (split_newline (strip pvlist_content)))"

section \<open>Values of the configuration file\<close>

text \<open>
  What \<open>yaml.safe_load\<close> returns: \<open>None\<close>, booleans, integers, strings, lists and
  dictionaries. The keys of a dictionary are strings, as in the configuration's schema, and
  occur once each; \<open>map_of\<close> looks a key up and the list keeps the order of \<open>items()\<close>.
  Floating-point numbers and timestamps are left out.
\<close>

datatype yaml =
    YNull
  | YBool bool
  | YInt int
  | YStr string
  | YList "yaml list"
  | YMap "(string \<times> yaml) list"

text \<open>
  The exceptions of the program; \<open>LoadError\<close> stands for a failure of \<open>open\<close> or of
  \<open>yaml.safe_load\<close> on the configuration file.
\<close>

datatype error = AttributeError | TypeError | KeyError | LoadError

text \<open>Sequencing: an exception ends the computation.\<close>

definition and_then :: "error + 'a \<Rightarrow> ('a \<Rightarrow> error + 'b) \<Rightarrow> error + 'b" where
  "and_then r f = (case r of Inl e \<Rightarrow> Inl e | Inr x \<Rightarrow> f x)"

text \<open>The truth value of an object, as \<open>if\<close>, \<open>or\<close> and \<open>not\<close> take it.\<close>

fun py_truthy :: "yaml \<Rightarrow> bool" where
  "py_truthy YNull = False"
| "py_truthy (YBool b) = b"
| "py_truthy (YInt i) = (i \<noteq> 0)"
| "py_truthy (YStr s) = (s \<noteq> [])"
| "py_truthy (YList xs) = (xs \<noteq> [])"
| "py_truthy (YMap m) = (m \<noteq> [])"

text \<open>\<open>d.get(key, default)\<close>: only a dictionary has the method.\<close>

fun py_get :: "yaml \<Rightarrow> string \<Rightarrow> yaml \<Rightarrow> error + yaml" where
  "py_get (YMap m) key dflt = Inr (case map_of m key of Some v \<Rightarrow> v | None \<Rightarrow> dflt)"
| "py_get _ key dflt = Inl AttributeError"

text \<open>
  \<open>key in d\<close> for a string \<open>key\<close>: a key of a dictionary, an element of a list, a
  substring of a string; the other objects are no containers.
\<close>

fun py_in :: "string \<Rightarrow> yaml \<Rightarrow> error + bool" where
  "py_in key (YMap m) = Inr (key \<in> fst ` set m)"
| "py_in key (YList xs) = Inr (YStr key \<in> set xs)"
| "py_in key (YStr s) = Inr (sublist key s)"
| "py_in key _ = Inl TypeError"

text \<open>\<open>d[key]\<close> for a string \<open>key\<close>.\<close>

fun py_getitem :: "yaml \<Rightarrow> string \<Rightarrow> error + yaml" where
  "py_getitem (YMap m) key = (case map_of m key of Some v \<Rightarrow> Inr v | None \<Rightarrow> Inl KeyError)"
| "py_getitem _ key = Inl TypeError"

text \<open>\<open>d.items()\<close>.\<close>

fun py_items :: "yaml \<Rightarrow> error + (string \<times> yaml) list" where
  "py_items (YMap m) = Inr m"
| "py_items _ = Inl AttributeError"

text \<open>
  The elements that \<open>for x in v\<close> visits: the elements of a list, the keys of a
  dictionary, the characters of a string.
\<close>

fun py_iter :: "yaml \<Rightarrow> error + yaml list" where
  "py_iter (YList xs) = Inr xs"
| "py_iter (YMap m) = Inr (map (\<lambda>kv. YStr (fst kv)) m)"
| "py_iter (YStr s) = Inr (map (\<lambda>c. YStr [c]) s)"
| "py_iter _ = Inl TypeError"

text \<open>Lists and dictionaries cannot be keys of a dictionary.\<close>

fun py_hashable :: "yaml \<Rightarrow> bool" where
  "py_hashable (YList xs) = False"
| "py_hashable (YMap m) = False"
| "py_hashable _ = True"

text \<open>\<open>url += v\<close> for a string \<open>url\<close>: only a string can be appended.\<close>

fun py_add_str :: "string \<Rightarrow> yaml \<Rightarrow> error + string" where
  "py_add_str s (YStr t) = Inr (s @ t)"
| "py_add_str s _ = Inl TypeError"

subsection \<open>Formatting\<close>

definition digit_char :: "nat \<Rightarrow> char" where
  "digit_char n = char_of (48 + n)"

fun dec_nat :: "nat \<Rightarrow> string" where
  "dec_nat n = (if n < 10 then [digit_char n] else dec_nat (n div 10) @ [digit_char (n mod 10)])"

definition dec_int :: "int \<Rightarrow> string" where
  "dec_int i = (if i < 0 then ''-'' @ dec_nat (nat (- i)) else dec_nat (nat i))"

definition hex_char :: "nat \<Rightarrow> char" where
  "hex_char n = (if n < 10 then char_of (48 + n) else char_of (87 + n))"

text \<open>
  \<open>repr\<close> of a string: in single quotes, or in double quotes when the string has a
  single quote and no double quote; the quote and the backslash are escaped, TAB, LF and
  CR have their letters, and the other characters that are not printable (controls, DEL,
  0x80 to 0xA0, the soft hyphen 0xAD) are written \<open>\xhh\<close>.
\<close>

definition repr_char :: "char \<Rightarrow> char \<Rightarrow> string" where
  "repr_char q c =
     (let n = (of_char c :: nat)
      in if c = q \<or> n = 92 then [CHR 0x5C, c]
         else if n = 9 then [CHR 0x5C, CHR ''t'']
         else if n = 10 then [CHR 0x5C, CHR ''n'']
         else if n = 13 then [CHR 0x5C, CHR ''r'']
         else if n < 32 \<or> n = 127 \<or> (128 \<le> n \<and> n \<le> 160) \<or> n = 173
           then [CHR 0x5C, CHR ''x'', hex_char (n div 16), hex_char (n mod 16)]
         else [c])"

definition repr_str :: "string \<Rightarrow> string" where
  "repr_str s =
     (let q = (if CHR 0x27 \<in> set s \<and> dquote \<notin> set s then dquote else CHR 0x27)
      in [q] @ concat (map (repr_char q) s) @ [q])"

fun py_repr :: "yaml \<Rightarrow> string" where
  "py_repr YNull = ''None''"
| "py_repr (YBool b) = (if b then ''True'' else ''False'')"
| "py_repr (YInt i) = dec_int i"
| "py_repr (YStr s) = repr_str s"
| "py_repr (YList xs) = ''['' @ join '', '' (map py_repr xs) @ '']''"
| "py_repr (YMap m) =
     ''{'' @ join '', '' (map (\<lambda>kv. repr_str (fst kv) @ '': '' @ py_repr (snd kv)) m) @ ''}''"

text \<open>
  \<open>str(v)\<close>, which is how an f-string renders \<open>{v}\<close>: a string is taken as it is.
\<close>

fun py_str :: "yaml \<Rightarrow> string" where
  "py_str (YStr s) = s"
| "py_str v = py_repr v"

section \<open>Loading the configuration\<close>

text \<open>\<open>values.get('epicsConfiguration', {}).get('iocs', [])\<close>\<close>

definition load_ioc_list :: "yaml \<Rightarrow> error + yaml" where
  "load_ioc_list values =
     and_then (py_get values ''epicsConfiguration'' (YMap [])) (\<lambda>epics.
     py_get epics ''iocs'' (YList []))"

text \<open>
  \<open>service_config.get('enable_ingress') or service_config.get('ingress', {}).get('enabled')\<close>:
  the second operand is evaluated only when the first is false.
\<close>

definition has_ingress :: "yaml \<Rightarrow> error + bool" where
  "has_ingress service_config =
     and_then (py_get service_config ''enable_ingress'' YNull) (\<lambda>flag.
     if py_truthy flag then Inr True
     else and_then (py_get service_config ''ingress'' (YMap [])) (\<lambda>ingress.
          and_then (py_get ingress ''enabled'' YNull) (\<lambda>enabled.
          Inr (py_truthy enabled))))"

text \<open>The condition of the loop of \<open>load_services_with_ingress\<close>.\<close>

definition ingress_or_loadbalancer :: "yaml \<Rightarrow> error + bool" where
  "ingress_or_loadbalancer service_config =
     and_then (has_ingress service_config) (\<lambda>ingress.
     if ingress then Inr True else py_in ''loadbalancer'' service_config)"

text \<open>The URL of a service that passed the condition.\<close>

definition compute_url :: "yaml \<Rightarrow> string \<Rightarrow> yaml \<Rightarrow> error + string" where
  "compute_url values service_name service_config =
     and_then (py_in ''loadbalancer'' service_config) (\<lambda>has_loadbalancer.
     and_then
       (if has_loadbalancer
        then and_then (py_getitem service_config ''loadbalancer'') (\<lambda>loadbalancer.
             Inr (''http://'' @ py_str loadbalancer))
        else and_then (py_get values ''beamline'' (YStr [])) (\<lambda>beamline.
             and_then (py_get values ''epik8namespace'' (YStr [])) (\<lambda>epik8namespace.
             Inr (''http://'' @ py_str beamline @ ''-'' @ service_name @ ''.''
                    @ py_str epik8namespace))))
       (\<lambda>url.
     and_then (py_in ''path'' service_config) (\<lambda>has_path.
     if has_path
     then and_then (py_getitem service_config ''path'') (\<lambda>path. py_add_str url path)
     else Inr url)))"

record service =
  name :: string
  config :: yaml
  url :: string

fun services_loop :: "yaml \<Rightarrow> (string \<times> yaml) list \<Rightarrow> service list \<Rightarrow> error + service list" where
  "services_loop values [] services = Inr services"
| "services_loop values ((service_name, service_config) # items) services =
     and_then (ingress_or_loadbalancer service_config) (\<lambda>selected.
     if selected
     then and_then (compute_url values service_name service_config) (\<lambda>u.
          services_loop values items
            (services @ [\<lparr>name = service_name, config = service_config, url = u\<rparr>]))
     else services_loop values items services)"

definition load_services_with_ingress :: "yaml \<Rightarrow> error + service list" where
  "load_services_with_ingress values =
     and_then (py_get values ''beamline'' (YStr [])) (\<lambda>beamline.
     and_then (py_get values ''epik8namespace'' (YStr [])) (\<lambda>epik8namespace.
     and_then (py_get values ''epicsConfiguration'' (YMap [])) (\<lambda>epics.
     and_then (py_get epics ''services'' (YMap [])) (\<lambda>epics_services.
     and_then (py_items epics_services) (\<lambda>items.
     services_loop values items [])))))"

text \<open>
  The specification's reading of a service record. Ingress is enabled by a truthy
  \<open>enable_ingress\<close> flag or by a nested \<open>ingress\<close> object whose \<open>enabled\<close> flag is
  truthy; a record qualifies when ingress is enabled or it has a \<open>loadbalancer\<close> key.
\<close>

definition ingress_enabled :: "(string \<times> yaml) list \<Rightarrow> bool" where
  "ingress_enabled record =
     ((case map_of record ''enable_ingress'' of Some flag \<Rightarrow> py_truthy flag | None \<Rightarrow> False)
      \<or> (case map_of record ''ingress'' of
            Some (YMap ingress) \<Rightarrow>
              (case map_of ingress ''enabled'' of Some flag \<Rightarrow> py_truthy flag | None \<Rightarrow> False)
          | _ \<Rightarrow> False))"

definition qualifies :: "(string \<times> yaml) list \<Rightarrow> bool" where
  "qualifies record = (ingress_enabled record \<or> ''loadbalancer'' \<in> fst ` set record)"

text \<open>
  The \<open>ingress\<close> field of a record can be read: the \<open>enable_ingress\<close> flag is truthy
  (the field is then not looked at), or the field is absent, or it is a dictionary.
\<close>

definition ingress_readable :: "(string \<times> yaml) list \<Rightarrow> bool" where
  "ingress_readable record =
     ((case map_of record ''enable_ingress'' of Some flag \<Rightarrow> py_truthy flag | None \<Rightarrow> False)
      \<or> (case map_of record ''ingress'' of
            None \<Rightarrow> True
          | Some (YMap ingress) \<Rightarrow> True
          | Some _ \<Rightarrow> False))"

text \<open>The service map of the configuration, \<open>epicsConfiguration.services\<close>, as its items.\<close>

definition epics_services :: "yaml \<Rightarrow> error + (string \<times> yaml) list" where
  "epics_services values =
     and_then (py_get values ''epicsConfiguration'' (YMap [])) (\<lambda>epics.
     and_then (py_get epics ''services'' (YMap [])) py_items)"

text \<open>A top-level scalar of the configuration, the empty string when it is absent.\<close>

definition top_level :: "(string \<times> yaml) list \<Rightarrow> string \<Rightarrow> yaml" where
  "top_level cfg key = (case map_of cfg key of Some v \<Rightarrow> v | None \<Rightarrow> YStr [])"

section \<open>The page of a device\<close>

text \<open>
  A device directory is the list of its regular text files, name and content, in the order
  of \<open>os.listdir\<close>; a file exists when the list has its name.
\<close>

type_synonym directory = "(string \<times> string) list"

definition ioc_asset_of :: "directory \<Rightarrow> string" where
  "ioc_asset_of ioc_path =
     (case extract_ioc_metadata (map_of ioc_path ''start.log'') ''IOC Asset'' of
        Some asset \<Rightarrow> asset
      | None \<Rightarrow> [])"

definition devgroup_of :: "directory \<Rightarrow> string" where
  "devgroup_of ioc_path =
     (case extract_ioc_metadata (map_of ioc_path ''start.log'') ''IOC Device Group'' of
        Some devgroup \<Rightarrow> devgroup
      | None \<Rightarrow> ''other'')"

definition start_log_content_of :: "directory \<Rightarrow> string" where
  "start_log_content_of ioc_path =
     (case map_of ioc_path ''start.log'' of
        Some log \<Rightarrow> make_urls_clickable log
      | None \<Rightarrow> [])"

text \<open>The first listed file whose name ends in \<open>.yaml\<close>.\<close>

definition yaml_content_of :: "directory \<Rightarrow> string" where
  "yaml_content_of ioc_path =
     (case filter (\<lambda>f. suffix ''.yaml'' (fst f)) ioc_path of
        [] \<Rightarrow> []
      | f # _ \<Rightarrow> snd f)"

definition stcmd_content_of :: "directory \<Rightarrow> string" where
  "stcmd_content_of ioc_path =
     (case map_of ioc_path ''st.cmd'' of Some content \<Rightarrow> content | None \<Rightarrow> [])"

definition pvlist_content_of :: "directory \<Rightarrow> string" where
  "pvlist_content_of ioc_path =
     (case map_of ioc_path ''pvlist.txt'' of Some content \<Rightarrow> content | None \<Rightarrow> [])"

definition pv_count_of :: "directory \<Rightarrow> nat" where
  "pv_count_of ioc_path =
     (case map_of ioc_path ''pvlist.txt'' of Some content \<Rightarrow> pv_count content | None \<Rightarrow> 0)"

text \<open>
  The description of the device: the \<open>desc\<close> of its record in \<open>ioc_configs\<close>, the empty
  string without one. The dictionary \<open>ioc_configs\<close> is only ever read at a string.
\<close>

definition ioc_desc_of :: "(yaml \<rightharpoonup> yaml) \<Rightarrow> string \<Rightarrow> error + yaml" where
  "ioc_desc_of ioc_configs ioc_name =
     (case ioc_configs (YStr ioc_name) of
        None \<Rightarrow> Inr (YStr [])
      | Some ioc \<Rightarrow>
          and_then (py_in ''desc'' ioc) (\<lambda>has_desc.
          if has_desc then py_getitem ioc ''desc'' else Inr (YStr [])))"

definition asset_link :: "string \<Rightarrow> string" where
  "asset_link ioc_asset = ''- [IOC Asset Documentation]('' @ ioc_asset @ '')''"

definition start_log_link :: string where
  "start_log_link = ''- [Start Log](#startlog)''"

definition yaml_link :: string where
  "yaml_link = ''- [Configuration (YAML)](#yaml)''"

definition stcmd_link :: string where
  "stcmd_link = ''- [EPICS st.cmd](#stcmd)''"

definition pvlist_link :: "nat \<Rightarrow> string" where
  "pvlist_link pv_cnt = ''- [Process Variables ('' @ dec_nat pv_cnt @ '')](#pvlist)''"

definition nav_links :: "string \<Rightarrow> string \<Rightarrow> string \<Rightarrow> string \<Rightarrow> nat \<Rightarrow> string list" where
  "nav_links ioc_asset yaml_content stcmd_content pvlist_content pv_cnt =
     (if ioc_asset \<noteq> [] then [asset_link ioc_asset] else [])
     @ [start_log_link]
     @ (if yaml_content \<noteq> [] then [yaml_link] else [])
     @ (if stcmd_content \<noteq> [] then [stcmd_link] else [])
     @ (if pvlist_content \<noteq> [] then [pvlist_link pv_cnt] else [])"

definition yaml_section :: "string \<Rightarrow> string" where
  "yaml_section yaml_content =
     (if yaml_content \<noteq> []
      then ''\<newline>## Configuration (YAML) {#yaml}\<newline>\<newline>```yaml\<newline>'' @ yaml_content
           @ ''\<newline>```\<newline>''
      else [])"

definition stcmd_section :: "string \<Rightarrow> string" where
  "stcmd_section stcmd_content =
     (if stcmd_content \<noteq> []
      then ''\<newline>## EPICS st.cmd {#stcmd}\<newline>\<newline>```bash\<newline>'' @ stcmd_content
           @ ''\<newline>```\<newline>''
      else [])"

definition pvlist_section :: "string \<Rightarrow> nat \<Rightarrow> string" where
  "pvlist_section pvlist_content pv_cnt =
     (if pvlist_content \<noteq> []
      then ''\<newline>## Process Variables ('' @ dec_nat pv_cnt @ '') {#pvlist}\<newline>\<newline>```text\<newline>''
           @ pvlist_content @ ''\<newline>```\<newline>''
      else [])"

definition desc_section :: "yaml \<Rightarrow> string" where
  "desc_section ioc_desc =
     (if py_truthy ioc_desc
      then ''\<newline>## Description\<newline>\<newline>'' @ py_str ioc_desc @ ''\<newline>\<newline>''
      else [])"

definition start_log_section :: "string \<Rightarrow> string" where
  "start_log_section start_log_content =
     ''## Start Log {#startlog}\<newline>\<newline>```\<newline>'' @ start_log_content @ ''\<newline>```\<newline>''"

text \<open>The front matter of a device page; \<open>now\<close> is \<open>datetime.now().isoformat()\<close>.\<close>

definition ioc_front_matter :: "string \<Rightarrow> string \<Rightarrow> string \<Rightarrow> string" where
  "ioc_front_matter ioc_name devgroup now =
     ''---\<newline>title: '' @ [dquote] @ ioc_name @ [dquote]
     @ ''\<newline>linkTitle: '' @ [dquote] @ ioc_name @ [dquote]
     @ ''\<newline>weight: 10\<newline>devgroup: '' @ [dquote] @ devgroup @ [dquote]
     @ ''\<newline>date: '' @ [dquote] @ now @ [dquote]
     @ ''\<newline>---\<newline>''"

definition ioc_md_content :: "string \<Rightarrow> string \<Rightarrow> directory \<Rightarrow> yaml \<Rightarrow> string" where
  "ioc_md_content now ioc_name ioc_path ioc_desc =
     ioc_front_matter ioc_name (devgroup_of ioc_path) now
     @ ''\<newline>## Quick Navigation\<newline>\<newline>''
     @ join [newline]
         (nav_links (ioc_asset_of ioc_path) (yaml_content_of ioc_path) (stcmd_content_of ioc_path)
            (pvlist_content_of ioc_path) (pv_count_of ioc_path))
     @ ''\<newline>\<newline>''
     @ start_log_section (start_log_content_of ioc_path)
     @ desc_section ioc_desc
     @ yaml_section (yaml_content_of ioc_path)
     @ stcmd_section (stcmd_content_of ioc_path)
     @ pvlist_section (pvlist_content_of ioc_path) (pv_count_of ioc_path)
     @ [newline]"

definition ioc_page :: "string \<Rightarrow> (yaml \<rightharpoonup> yaml) \<Rightarrow> string \<Rightarrow> directory \<Rightarrow> error + string" where
  "ioc_page now ioc_configs ioc_name ioc_path =
     and_then (ioc_desc_of ioc_configs ioc_name) (\<lambda>ioc_desc.
     Inr (ioc_md_content now ioc_name ioc_path ioc_desc))"

section \<open>The page of a service\<close>

definition connection_info :: "service \<Rightarrow> error + string" where
  "connection_info service =
     and_then (has_ingress (config service)) (\<lambda>ingress.
     and_then (py_in ''loadbalancer'' (config service)) (\<lambda>has_loadbalancer.
     if has_loadbalancer \<and> \<not> ingress
     then and_then (py_getitem (config service) ''loadbalancer'') (\<lambda>loadbalancer.
          Inr (''**Connection IP:** '' @ py_str loadbalancer))
     else Inr (''## Service URL\<newline>\<newline>['' @ url service @ '']('' @ url service @ '')'')))"

definition service_front_matter :: "string \<Rightarrow> string \<Rightarrow> string" where
  "service_front_matter service_name now =
     ''---\<newline>title: '' @ [dquote] @ service_name @ [dquote]
     @ ''\<newline>linkTitle: '' @ [dquote] @ service_name @ [dquote]
     @ ''\<newline>weight: 10\<newline>type: docs\<newline>date: '' @ [dquote] @ now @ [dquote]
     @ ''\<newline>---\<newline>''"

text \<open>The body of a service page: what follows the front matter and its blank line.\<close>

definition service_body :: "service \<Rightarrow> error + string" where
  "service_body service =
     and_then (py_get (config service) ''desc''
                 (YStr ''This is an EPICS service with ingress enabled.'')) (\<lambda>service_desc.
     and_then (connection_info service) (\<lambda>info.
     Inr (info @ ''\<newline>\<newline>## Description\<newline>\<newline>'' @ py_str service_desc @ [newline])))"

definition service_page :: "string \<Rightarrow> service \<Rightarrow> error + string" where
  "service_page now service =
     and_then (service_body service) (\<lambda>body.
     Inr (service_front_matter (name service) now @ [newline] @ body))"

section \<open>main\<close>

text \<open>
  An output directory maps the names of its files to their contents; \<open>open(path, 'w')\<close>
  creates or replaces a file. The two output directories are different directories. An
  entry of \<open>iocinfo_dir\<close> is a directory with its files or something else. The
  \<open>k\<close>-th page of a run is stamped \<open>clock k\<close>.
\<close>

type_synonym outdir = "string \<rightharpoonup> string"

datatype entry = Directory directory | Other

text \<open>\<open>[ioc['name'] for ioc in iocs_data]\<close>\<close>

fun ioc_names :: "yaml list \<Rightarrow> error + yaml list" where
  "ioc_names [] = Inr []"
| "ioc_names (ioc # iocs) =
     and_then (py_getitem ioc ''name'') (\<lambda>n.
     and_then (ioc_names iocs) (\<lambda>ns. Inr (n # ns)))"

text \<open>
  \<open>{ioc['name']: ioc for ioc in iocs_data}\<close>: a later record replaces an earlier one of
  the same name.
\<close>

fun ioc_config_dict :: "(yaml \<rightharpoonup> yaml) \<Rightarrow> yaml list \<Rightarrow> error + (yaml \<rightharpoonup> yaml)" where
  "ioc_config_dict ioc_configs [] = Inr ioc_configs"
| "ioc_config_dict ioc_configs (ioc # iocs) =
     and_then (py_getitem ioc ''name'') (\<lambda>n.
     if py_hashable n then ioc_config_dict (ioc_configs(n \<mapsto> ioc)) iocs else Inl TypeError)"

text \<open>
  The first part of \<open>main\<close>: without a configuration file there is no list of allowed
  devices, no record and no service. With one, \<open>loaded\<close> is what opening and parsing it
  gives.
\<close>

definition load_config ::
  "(error + yaml) option \<Rightarrow> error + (yaml list option \<times> (yaml \<rightharpoonup> yaml) \<times> service list)" where
  "load_config values_file =
     (case values_file of
        None \<Rightarrow> Inr (None, Map.empty, [])
      | Some loaded \<Rightarrow>
          and_then loaded (\<lambda>values.
          and_then (load_ioc_list values) (\<lambda>iocs_data.
          and_then (py_iter iocs_data) (\<lambda>iocs.
          and_then (ioc_names iocs) (\<lambda>allowed_iocs.
          and_then (ioc_config_dict Map.empty iocs) (\<lambda>ioc_configs.
          and_then (load_services_with_ingress values) (\<lambda>services.
          Inr (Some allowed_iocs, ioc_configs, services))))))))"

text \<open>The entries of \<open>iocinfo_dir\<close> that are directories.\<close>

fun list_ioc_dirs :: "(string \<times> entry) list \<Rightarrow> (string \<times> directory) list" where
  "list_ioc_dirs [] = []"
| "list_ioc_dirs ((d, Directory files) # es) = (d, files) # list_ioc_dirs es"
| "list_ioc_dirs ((d, Other) # es) = list_ioc_dirs es"

text \<open>\<open>if allowed_iocs:\<close> holds for a list that is not empty.\<close>

definition filter_ioc_dirs ::
  "yaml list option \<Rightarrow> (string \<times> directory) list \<Rightarrow> (string \<times> directory) list" where
  "filter_ioc_dirs allowed_iocs ioc_dirs =
     (case allowed_iocs of
        None \<Rightarrow> ioc_dirs
      | Some allowed \<Rightarrow>
          if allowed \<noteq> [] then filter (\<lambda>ioc. YStr (fst ioc) \<in> set allowed) ioc_dirs
          else ioc_dirs)"

fun device_loop ::
  "(nat \<Rightarrow> string) \<Rightarrow> (yaml \<rightharpoonup> yaml) \<Rightarrow> nat \<Rightarrow> (string \<times> directory) list \<Rightarrow> outdir
     \<Rightarrow> outdir \<times> nat \<times> error option" where
  "device_loop clock ioc_configs k [] control_dir = (control_dir, k, None)"
| "device_loop clock ioc_configs k ((ioc_name, ioc_path) # ioc_dirs) control_dir =
     (case ioc_page (clock k) ioc_configs ioc_name ioc_path of
        Inl e \<Rightarrow> (control_dir, k, Some e)
      | Inr md_content \<Rightarrow>
          device_loop clock ioc_configs (Suc k) ioc_dirs
            (control_dir(ioc_name @ ''.md'' \<mapsto> md_content)))"

fun service_loop ::
  "(nat \<Rightarrow> string) \<Rightarrow> nat \<Rightarrow> service list \<Rightarrow> outdir \<Rightarrow> outdir \<times> error option" where
  "service_loop clock k [] services_dir = (services_dir, None)"
| "service_loop clock k (service # services) services_dir =
     (case service_page (clock k) service of
        Inl e \<Rightarrow> (services_dir, Some e)
      | Inr md_content \<Rightarrow>
          service_loop clock (Suc k) services
            (services_dir(name service @ ''.md'' \<mapsto> md_content)))"

text \<open>
  The result of a run: the two output directories as the run leaves them, and the
  exception that ended it, if any.
\<close>

definition main ::
  "(nat \<Rightarrow> string) \<Rightarrow> (string \<times> entry) list \<Rightarrow> outdir \<Rightarrow> (error + yaml) option \<Rightarrow> outdir
     \<Rightarrow> outdir \<times> outdir \<times> error option" where
  "main clock iocinfo_dir control_dir values_file services_dir =
     (case load_config values_file of
        Inl e \<Rightarrow> (control_dir, services_dir, Some e)
      | Inr (allowed_iocs, ioc_configs, services) \<Rightarrow>
          (case device_loop clock ioc_configs 0
                  (filter_ioc_dirs allowed_iocs (list_ioc_dirs iocinfo_dir)) control_dir of
             (control_dir', k, Some e) \<Rightarrow> (control_dir', services_dir, Some e)
           | (control_dir', k, None) \<Rightarrow>
               (case service_loop clock k services services_dir of
                  (services_dir', raised) \<Rightarrow> (control_dir', services_dir', raised))))"

section \<open>Properties of the metadata parser\<close>

lemma metadata_line_entry:
  "metadata_line m l = (case line_entry l of None \<Rightarrow> m | Some (k, v) \<Rightarrow> m(k \<mapsto> v))"
  by (simp add: metadata_line_def line_entry_def split_colon_def)

lemma metadata_loop_map_of:
  "metadata_loop m ls = m ++ map_of (rev (List.map_filter line_entry ls))"
proof (induction ls arbitrary: m)
  case Nil
  then show ?case by simp
next
  case (Cons l ls)
  show ?case
  proof (cases "line_entry l")
    case None
    then show ?thesis
      by (simp add: Cons.IH metadata_line_entry)
  next
    case (Some kv)
    obtain k v where kv: "kv = (k, v)" by (cases kv)
    have step: "metadata_line m l = m(k \<mapsto> v)"
      by (simp add: metadata_line_entry Some kv)
    have "metadata_loop m (l # ls) = m(k \<mapsto> v) ++ map_of (rev (List.map_filter line_entry ls))"
      unfolding metadata_loop.simps step by (rule Cons.IH)
    also have "\<dots> = m ++ (map_of [(k, v)] ++ map_of (rev (List.map_filter line_entry ls)))"
      by (simp add: map_add_assoc[symmetric] map_add_upd_left)
    also have "\<dots> = m ++ map_of (rev (List.map_filter line_entry (l # ls)))"
      by (simp add: Some kv)
    finally show ?thesis .
  qed
qed

lemma strip_leading: "isspace c \<Longrightarrow> strip (c # s) = strip s"
  by (simp add: strip_def)

lemma strip_trailing: "isspace c \<Longrightarrow> strip (s @ [c]) = strip s"
proof (cases "\<forall>x \<in> set s. isspace x")
  case True
  assume c: "isspace c"
  from True have 1: "dropWhile isspace s = []" by simp
  from True c have 2: "dropWhile isspace (s @ [c]) = []" by simp
  show ?thesis unfolding strip_def 1 2 ..
next
  case False
  assume "isspace c"
  with False show ?thesis by (auto simp: strip_def dropWhile_append1)
qed

lemma strip_id:
  assumes "s = [] \<or> (\<not> isspace (hd s) \<and> \<not> isspace (last s))"
  shows "strip s = s"
proof (cases "s = []")
  case True
  then show ?thesis by (simp add: strip_def)
next
  case False
  with assms have h: "\<not> isspace (hd s)" and l: "\<not> isspace (last s)" by auto
  from h False have 1: "dropWhile isspace s = s" by (cases s) auto
  from l False have 2: "dropWhile isspace (rev s) = rev s"
    by (cases s rule: rev_cases) auto
  show ?thesis by (simp add: strip_def 1 2)
qed

lemma line_entry_first_colon:
  "colon \<notin> set K \<Longrightarrow> line_entry (K @ colon # rest) = Some (strip K, strip rest)"
  by (simp add: line_entry_def takeWhile_append dropWhile_append)



lemma metadata_loop_append:
  "metadata_loop m (xs @ ys) = metadata_loop (metadata_loop m xs) ys"
  by (induction xs arbitrary: m) simp_all

lemma metadata_loop_other_keys:
  "\<forall>l \<in> set ls. \<forall>v. line_entry l \<noteq> Some (k, v) \<Longrightarrow> metadata_loop m ls k = m k"
  by (induction ls arbitrary: m) (auto simp: metadata_line_entry split: option.splits)

text \<open>
  Claim C5. The parsed metadata is the dictionary of the entries of the lines that contain a
  colon, in file order (a later entry for a key replaces an earlier one); an entry is the
  line split at its first colon, key and value stripped of surrounding whitespace; a line
  without a colon has no entry and contributes nothing.
\<close>

theorem metadata_parsing:
  "extract_ioc_metadata (Some text) = map_of (rev (List.map_filter line_entry (readlines text)))
   \<and> (colon \<notin> set K \<longrightarrow> line_entry (K @ colon # rest) = Some (strip K, strip rest))
   \<and> (colon \<notin> set line \<longrightarrow> line_entry line = None)"
  by (simp add: extract_ioc_metadata_def metadata_loop_map_of line_entry_first_colon)
     (simp add: line_entry_def)

theorem metadata_parsing_witness:
  "extract_ioc_metadata (Some ''K: V\<newline>junk\<newline>'') = map_of [(''K'', ''V'')]
   \<and> colon \<notin> set ''K'' \<and> line_entry (''K'' @ colon # '' V\<newline>'') = Some (''K'', ''V'')
   \<and> colon \<notin> set ''junk\<newline>'' \<and> line_entry ''junk\<newline>'' = None"
  using metadata_parsing [of "''K: V\<newline>junk\<newline>''" "''K''" "'' V\<newline>''" "''junk\<newline>''"]
  by (simp add: line_entry_def strip_def isspace_def colon_def newline_def)

text \<open>
  Claim C10. When a key occurs on several lines with a colon, the metadata maps it to the
  stripped value of the last of them: a line with entry \<open>(k, v)\<close> that no later line
  with key \<open>k\<close> follows gives \<open>k\<close> the value \<open>v\<close>, whatever stands before it.
\<close>

theorem metadata_last_wins:
  assumes "readlines text = pre @ [line] @ post"
    and "line_entry line = Some (k, v)"
    and "\<forall>l \<in> set post. \<forall>v'. line_entry l \<noteq> Some (k, v')"
  shows "extract_ioc_metadata (Some text) k = Some v"
proof -
  have "metadata_loop Map.empty (pre @ [line] @ post) k
      = metadata_line (metadata_loop Map.empty pre) line k"
    using assms(3) by (simp add: metadata_loop_append metadata_loop_other_keys)
  also have "\<dots> = Some v"
    using assms(2) by (simp add: metadata_line_entry)
  finally show ?thesis
    by (simp add: extract_ioc_metadata_def assms(1))
qed

theorem metadata_last_wins_witness:
  "readlines ''a: 1\<newline>b: 7\<newline>a : 2\<newline>c: 9'' = [''a: 1\<newline>'', ''b: 7\<newline>''] @ [''a : 2\<newline>''] @ [''c: 9'']
   \<and> line_entry ''a : 2\<newline>'' = Some (''a'', ''2'')
   \<and> List.map_filter line_entry [''c: 9''] = [(''c'', ''9'')]
   \<and> extract_ioc_metadata (Some ''a: 1\<newline>b: 7\<newline>a : 2\<newline>c: 9'') ''a'' = Some ''2''"
proof -
  have r: "readlines ''a: 1\<newline>b: 7\<newline>a : 2\<newline>c: 9'' = [''a: 1\<newline>'', ''b: 7\<newline>''] @ [''a : 2\<newline>''] @ [''c: 9'']"
    by (simp add: newline_def)
  have e: "line_entry ''a : 2\<newline>'' = Some (''a'', ''2'')"
    by (simp add: line_entry_def strip_def isspace_def colon_def)
  have n: "\<forall>l \<in> set [''c: 9'']. \<forall>v'. line_entry l \<noteq> Some (''a'', v')"
    by (simp add: line_entry_def strip_def isspace_def colon_def)
  have p: "List.map_filter line_entry [''c: 9''] = [(''c'', ''9'')]"
    by (simp add: line_entry_def strip_def isspace_def colon_def)
  from metadata_last_wins [OF r e n] r e p show ?thesis by blast
qed

section \<open>Properties of the process-variable count\<close>
















section \<open>Properties of make_urls_clickable\<close>

lemma takeWhile_scheme:
  "\<forall>c \<in> set scheme. \<not> isspace c \<Longrightarrow>
   takeWhile (\<lambda>c. \<not> isspace c) (scheme @ r) = scheme @ takeWhile (\<lambda>c. \<not> isspace c) r"
  by (simp add: takeWhile_append2)

lemma dropWhile_scheme:
  "\<forall>c \<in> set scheme. \<not> isspace c \<Longrightarrow>
   dropWhile (\<lambda>c. \<not> isspace c) (scheme @ r) = dropWhile (\<lambda>c. \<not> isspace c) r"
  by (simp add: dropWhile_append2)

lemma match_after_eq:
  assumes "\<forall>c \<in> set scheme. \<not> isspace c"
  shows "match_after scheme s =
     (if take (length scheme) s = scheme \<and>
         (case drop (length scheme) s of [] \<Rightarrow> False | c # _ \<Rightarrow> \<not> isspace c)
      then Some (takeWhile (\<lambda>c. \<not> isspace c) s, dropWhile (\<lambda>c. \<not> isspace c) s)
      else None)"
proof (cases "take (length scheme) s = scheme")
  case False
  then show ?thesis by (simp add: match_after_def)
next
  case True
  define r where "r = drop (length scheme) s"
  from True have s: "s = scheme @ r"
    unfolding r_def by (metis append_take_drop_id)
  show ?thesis
    unfolding s
    by (cases r)
       (simp_all add: match_after_def Let_def takeWhile_scheme [OF assms] dropWhile_scheme [OF assms])
qed

lemma scheme_nonspace:
  "\<forall>c \<in> set ''https://''. \<not> isspace c" "\<forall>c \<in> set ''http://''. \<not> isspace c"
  by (simp_all add: isspace_def)

lemma url_match_eq:
  "url_match s =
     (if url_start s
      then Some (takeWhile (\<lambda>c. \<not> isspace c) s, dropWhile (\<lambda>c. \<not> isspace c) s)
      else None)"
  unfolding url_match_def match_after_eq [OF scheme_nonspace(1)] match_after_eq [OF scheme_nonspace(2)]
  by (auto simp: url_start_def)

lemma copy_until_url:
  "\<forall>i < length pre. \<not> url_start (drop i (pre @ rest)) \<Longrightarrow>
   make_urls_clickable (pre @ rest) = pre @ make_urls_clickable rest"
proof (induction pre)
  case Nil
  then show ?case by simp
next
  case (Cons c pre)
  from Cons.prems have "\<not> url_start (drop 0 ((c # pre) @ rest))" by blast
  then have m: "url_match (c # pre @ rest) = None" by (simp add: url_match_eq)
  have "\<forall>i < length pre. \<not> url_start (drop i (pre @ rest))"
  proof (intro allI impI)
    fix i assume "i < length pre"
    then have "Suc i < length (c # pre)" by simp
    with Cons.prems have "\<not> url_start (drop (Suc i) ((c # pre) @ rest))" by blast
    then show "\<not> url_start (drop i (pre @ rest))" by simp
  qed
  then have "make_urls_clickable (pre @ rest) = pre @ make_urls_clickable rest"
    by (rule Cons.IH)
  then show ?case by (simp add: m)
qed

lemma url_start_nonempty: "url_start s \<Longrightarrow> s \<noteq> []"
  by (auto simp: url_start_def)

lemma link_at_url:
  assumes "url_start s"
  shows "make_urls_clickable s =
     ''['' @ takeWhile (\<lambda>c. \<not> isspace c) s @ '']('' @ takeWhile (\<lambda>c. \<not> isspace c) s @ '')''
       @ make_urls_clickable (dropWhile (\<lambda>c. \<not> isspace c) s)"
proof -
  from assms obtain c cs where s: "s = c # cs"
    using url_start_nonempty by (cases s) auto
  show ?thesis
    using assms unfolding s by (simp add: url_match_eq)
qed

lemma url_start_sublist:
  "url_start (drop i t) \<Longrightarrow> sublist ''http://'' t \<or> sublist ''https://'' t"
proof -
  assume "url_start (drop i t)"
  then obtain scheme where mem: "scheme \<in> set [''http://'', ''https://'']"
    and tk: "take (length scheme) (drop i t) = scheme"
    unfolding url_start_def by blast
  from mem have sch: "scheme = ''http://'' \<or> scheme = ''https://''" by simp
  have "t = take i t @ take (length scheme) (drop i t) @ drop (length scheme) (drop i t)"
    by (simp only: append_take_drop_id)
  then have "sublist scheme t"
    unfolding tk sublist_def by blast
  with sch show ?thesis by blast
qed

lemma linkify_example:
  "make_urls_clickable ''see http://x.io/a for details''
     = ''see [http://x.io/a](http://x.io/a) for details''"
  by (simp add: url_match_def match_after_def isspace_def)

text \<open>
  Claim C7. Where the scan of a text meets the first place at which a URL starts
  (\<open>http://\<close> or \<open>https://\<close> followed by a non-whitespace character), everything before
  it is copied unchanged, the maximal run of non-whitespace characters from that place is
  replaced by the link \<open>[url](url)\<close>, and the rest of the text is treated in the same way;
  a text in which no URL starts is returned unchanged; and the example of the
  specification holds.
\<close>

theorem linkify_urls:
  "((\<forall>i < length pre. \<not> url_start (drop i (pre @ rest))) \<longrightarrow> url_start rest \<longrightarrow>
      make_urls_clickable (pre @ rest) =
        pre @ ''['' @ takeWhile (\<lambda>c. \<not> isspace c) rest @ '']('' @ takeWhile (\<lambda>c. \<not> isspace c) rest
            @ '')'' @ make_urls_clickable (dropWhile (\<lambda>c. \<not> isspace c) rest))
   \<and> ((\<forall>i < length plain. \<not> url_start (drop i plain)) \<longrightarrow> make_urls_clickable plain = plain)
   \<and> make_urls_clickable ''see http://x.io/a for details''
        = ''see [http://x.io/a](http://x.io/a) for details''"
proof (intro conjI impI)
  assume "\<forall>i < length pre. \<not> url_start (drop i (pre @ rest))" and "url_start rest"
  then show "make_urls_clickable (pre @ rest) =
        pre @ ''['' @ takeWhile (\<lambda>c. \<not> isspace c) rest @ '']('' @ takeWhile (\<lambda>c. \<not> isspace c) rest
            @ '')'' @ make_urls_clickable (dropWhile (\<lambda>c. \<not> isspace c) rest)"
    by (simp add: copy_until_url link_at_url)
next
  assume "\<forall>i < length plain. \<not> url_start (drop i plain)"
  then have "\<forall>i < length plain. \<not> url_start (drop i (plain @ []))" by simp
  then have "make_urls_clickable (plain @ []) = plain @ make_urls_clickable []"
    by (rule copy_until_url)
  then show "make_urls_clickable plain = plain" by simp
next
  show "make_urls_clickable ''see http://x.io/a for details''
        = ''see [http://x.io/a](http://x.io/a) for details''"
    by (rule linkify_example)
qed

theorem linkify_urls_witness:
  "url_start ''https://a.b/c?d\<newline>and http://e''
   \<and> \<not> url_start ''to https://a.b/c?d\<newline>and http://e''
   \<and> \<not> url_start ''o https://a.b/c?d\<newline>and http://e''
   \<and> \<not> url_start '' https://a.b/c?d\<newline>and http://e''
   \<and> make_urls_clickable (''to '' @ ''https://a.b/c?d\<newline>and http://e'')
        = ''to [https://a.b/c?d](https://a.b/c?d)'' @ make_urls_clickable ''\<newline>and http://e''
   \<and> \<not> url_start ''ab'' \<and> \<not> url_start ''b'' \<and> make_urls_clickable ''ab'' = ''ab''"
proof -
  have s: "url_start ''https://a.b/c?d\<newline>and http://e''"
    by (simp add: url_start_def isspace_def)
  have n: "\<not> url_start ''to https://a.b/c?d\<newline>and http://e''"
    "\<not> url_start ''o https://a.b/c?d\<newline>and http://e''"
    "\<not> url_start '' https://a.b/c?d\<newline>and http://e''"
    "\<not> url_start ''ab''" "\<not> url_start ''b''"
    by (simp_all add: url_start_def)
  have a: "\<forall>i < length ''to ''. \<not> url_start (drop i (''to '' @ ''https://a.b/c?d\<newline>and http://e''))"
    using n by (simp add: All_less_Suc)
  have b: "\<forall>i < length ''ab''. \<not> url_start (drop i ''ab'')"
    using n by (simp add: All_less_Suc)
  from linkify_urls [of "''to ''" "''https://a.b/c?d\<newline>and http://e''" "''ab''"] a b s n
  show ?thesis by (simp add: isspace_def)
qed

text \<open>
  Claim C8. A text with no substring \<open>http://\<close> and no substring \<open>https://\<close> is returned
  unchanged, so that applying the transform twice is the same as applying it once.
\<close>

theorem linkify_url_free:
  assumes "\<not> sublist ''http://'' plain" and "\<not> sublist ''https://'' plain"
  shows "make_urls_clickable plain = plain
         \<and> make_urls_clickable (make_urls_clickable plain) = make_urls_clickable plain"
proof -
  have "\<forall>i < length plain. \<not> url_start (drop i (plain @ []))"
    using assms url_start_sublist [of _ plain] by auto
  then have "make_urls_clickable (plain @ []) = plain @ make_urls_clickable []"
    by (rule copy_until_url)
  then show ?thesis by simp
qed

theorem linkify_url_free_witness:
  "\<not> sublist ''http://'' ''ftp://x http:/y'' \<and> \<not> sublist ''https://'' ''ftp://x http:/y''
   \<and> make_urls_clickable ''ftp://x http:/y'' = ''ftp://x http:/y''
   \<and> make_urls_clickable (make_urls_clickable ''ftp://x http:/y'')
        = make_urls_clickable ''ftp://x http:/y''"
proof -
  have a: "\<not> sublist ''http://'' ''ftp://x http:/y''" by code_simp
  have b: "\<not> sublist ''https://'' ''ftp://x http:/y''" by code_simp
  from linkify_url_free [OF a b] a b show ?thesis by blast
qed

end
